theory Spec2Isabelle
  imports Complex_Main "HOL-Library.AList" "HOL-Library.Multiset"
begin

section \<open>Python values\<close>

text \<open>
  The repository is Python: field values produced by the extraction collaborator and the
  contents of the ledger file are dynamically typed. A float is given by the real number
  it denotes, or it is an infinity or NaN; the operations that round (the conversion of
  an int, addition, subtraction) are taken from the library.
\<close>

datatype pyfloat = Fin real | PosInf | NegInf | NaN

datatype pyval =
    PNone
  | PBool bool
  | PInt int
  | PFloat pyfloat
  | PStr string
  | PList "pyval list"
  | PDict "(string \<times> pyval) list"

datatype exn = AttributeError | TypeError | ValueError | OverflowError | KeyError | OSError

text \<open>Truthiness, as \<^verbatim>\<open>bool(v)\<close> and \<^verbatim>\<open>not v\<close> compute it.\<close>

fun py_bool :: "pyval \<Rightarrow> bool" where
  "py_bool PNone = False"
| "py_bool (PBool b) = b"
| "py_bool (PInt i) = (i \<noteq> 0)"
| "py_bool (PFloat x) = (x \<noteq> Fin 0)"
| "py_bool (PStr s) = (s \<noteq> [])"
| "py_bool (PList xs) = (xs \<noteq> [])"
| "py_bool (PDict kvs) = (kvs \<noteq> [])"

text \<open>Naive and aware datetimes, in microseconds; an aware one carries its UTC instant
  and its offset.\<close>

datatype pydatetime = Naive int | Aware int int

text \<open>
  The library functions the code calls are parameters of the model:
  \<^verbatim>\<open>float(s)\<close> and \<^verbatim>\<open>datetime.fromisoformat(s)\<close> on a \<^verbatim>\<open>str\<close>
  (\<open>None\<close> where Python raises ValueError), \<^verbatim>\<open>float(i)\<close> on an \<^verbatim>\<open>int\<close>
  (\<open>None\<close> where it raises OverflowError), the sum and the difference of two
  floats, \<^verbatim>\<open>isoformat()\<close>, and the text an f-string prints for a float.
\<close>

record pylib =
  float_of_str :: "string \<Rightarrow> pyfloat option"
  float_of_int :: "int \<Rightarrow> pyfloat option"
  float_add :: "pyfloat \<Rightarrow> pyfloat \<Rightarrow> pyfloat"
  float_sub :: "pyfloat \<Rightarrow> pyfloat \<Rightarrow> pyfloat"
  fromisoformat :: "string \<Rightarrow> pydatetime option"
  isoformat :: "pydatetime \<Rightarrow> string"
  str_of_float :: "pyfloat \<Rightarrow> string"

fun and_then :: "exn + 'a \<Rightarrow> ('a \<Rightarrow> exn + 'b) \<Rightarrow> exn + 'b" where
  "and_then (Inl e) f = Inl e"
| "and_then (Inr x) f = f x"

text \<open>\<^verbatim>\<open>float(v)\<close>: a string is parsed, an int is converted, anything else but a
  number is a TypeError.\<close>

fun py_float :: "pylib \<Rightarrow> pyval \<Rightarrow> exn + pyfloat" where
  "py_float L PNone = Inl TypeError"
| "py_float L (PBool b) = Inr (Fin (if b then 1 else 0))"
| "py_float L (PInt i) =
     (case float_of_int L i of None \<Rightarrow> Inl OverflowError | Some x \<Rightarrow> Inr x)"
| "py_float L (PFloat x) = Inr x"
| "py_float L (PStr s) =
     (case float_of_str L s of None \<Rightarrow> Inl ValueError | Some x \<Rightarrow> Inr x)"
| "py_float L (PList xs) = Inl TypeError"
| "py_float L (PDict kvs) = Inl TypeError"

fun float_abs :: "pyfloat \<Rightarrow> pyfloat" where
  "float_abs (Fin a) = Fin \<bar>a\<bar>"
| "float_abs PosInf = PosInf"
| "float_abs NegInf = PosInf"
| "float_abs NaN = NaN"

text \<open>\<^verbatim>\<open>abs(x)\<close>, \<^verbatim>\<open>x <= y\<close> and \<^verbatim>\<open>x < y\<close> on floats are exact; the comparisons
  are false whenever a NaN is involved.\<close>

fun float_le :: "pyfloat \<Rightarrow> pyfloat \<Rightarrow> bool" where
  "float_le NaN y = False"
| "float_le x NaN = False"
| "float_le NegInf y = True"
| "float_le x PosInf = True"
| "float_le PosInf y = False"
| "float_le x NegInf = False"
| "float_le (Fin a) (Fin b) = (a \<le> b)"

fun float_lt :: "pyfloat \<Rightarrow> pyfloat \<Rightarrow> bool" where
  "float_lt NaN y = False"
| "float_lt x NaN = False"
| "float_lt PosInf y = False"
| "float_lt x NegInf = False"
| "float_lt NegInf y = True"
| "float_lt x PosInf = True"
| "float_lt (Fin a) (Fin b) = (a < b)"

text \<open>\<^verbatim>\<open>datetime.fromisoformat(v)\<close>: TypeError unless \<open>v\<close> is a string.\<close>

fun py_fromisoformat :: "pylib \<Rightarrow> pyval \<Rightarrow> exn + pydatetime" where
  "py_fromisoformat L (PStr s) =
     (case fromisoformat L s of None \<Rightarrow> Inl ValueError | Some d \<Rightarrow> Inr d)"
| "py_fromisoformat L v = Inl TypeError"

text \<open>\<^verbatim>\<open>a >= b\<close> on datetimes: a naive and an aware one do not compare.\<close>

fun datetime_ge :: "pydatetime \<Rightarrow> pydatetime \<Rightarrow> exn + bool" where
  "datetime_ge (Naive a) (Naive b) = Inr (b \<le> a)"
| "datetime_ge (Aware a oa) (Aware b ob) = Inr (b \<le> a)"
| "datetime_ge x y = Inl TypeError"

fun join_comma :: "string list \<Rightarrow> string" where
  "join_comma [] = []"
| "join_comma [x] = x"
| "join_comma (x # y # ys) = x @ '', '' @ join_comma (y # ys)"


section \<open>data\_models.py: the extraction result\<close>

datatype ConfidenceLevel = HIGH | MEDIUM | LOW | UNCERTAIN

record ExtractedField =
  value' :: pyval
  confidence :: ConfidenceLevel
  source_text :: "string option"
  alternatives :: "string list"

record BudgetSummary =
  personnel :: "ExtractedField option"
  equipment :: "ExtractedField option"
  travel :: "ExtractedField option"
  supplies :: "ExtractedField option"
  indirect_costs :: "ExtractedField option"
  other :: "ExtractedField option"
  total' :: "ExtractedField option"

record Timeline =
  application_date :: "ExtractedField option"
  award_date :: "ExtractedField option"
  project_start_date :: "ExtractedField option"
  project_end_date :: "ExtractedField option"
  duration_months :: "ExtractedField option"

record TeamMember =
  name :: "ExtractedField option"
  role :: "ExtractedField option"
  institution :: "ExtractedField option"
  email :: "ExtractedField option"

record ValidationFlags =
  missing_required_fields :: "string list"
  inconsistent_dates :: "string list"
  budget_calculation_errors :: "string list"
  suspicious_values :: "string list"
  needs_human_review :: bool

text \<open>The attributes of \<^verbatim>\<open>GrantData\<close> that \<^verbatim>\<open>validate\<close> reads, in the order of
  the class. (The team lists, the project record, the document links, the extraction
  metadata and the custom fields are never an \<^verbatim>\<open>ExtractedField\<close> and are left out.)\<close>

record GrantData =
  grant_id :: "ExtractedField option"
  grant_name :: "ExtractedField option"
  funding_agency :: "ExtractedField option"
  award_amount :: "ExtractedField option"
  grant_type :: "ExtractedField option"
  timeline :: Timeline
  principal_investigator :: "TeamMember option"
  budget :: BudgetSummary
  current_status :: "ExtractedField option"
  progress_notes :: "ExtractedField option"

definition field :: "pyval \<Rightarrow> ConfidenceLevel \<Rightarrow> ExtractedField" where
  "field v c = \<lparr>value' = v, confidence = c, source_text = None, alternatives = []\<rparr>"

definition empty_budget :: BudgetSummary where
  "empty_budget = \<lparr>personnel = None, equipment = None, travel = None, supplies = None,
     indirect_costs = None, other = None, total' = None\<rparr>"

definition empty_timeline :: Timeline where
  "empty_timeline = \<lparr>application_date = None, award_date = None, project_start_date = None,
     project_end_date = None, duration_months = None\<rparr>"

definition empty_grant_data :: GrantData where
  "empty_grant_data = \<lparr>grant_id = None, grant_name = None, funding_agency = None,
     award_amount = None, grant_type = None, timeline = empty_timeline,
     principal_investigator = None, budget = empty_budget, current_status = None,
     progress_notes = None\<rparr>"


section \<open>GrantDataValidator.validate\<close>

definition REQUIRED_FIELDS :: "string list" where
  "REQUIRED_FIELDS = [''grant_id'', ''grant_name'', ''funding_agency'', ''award_amount'',
     ''principal_investigator'']"

text \<open>What \<^verbatim>\<open>getattr(grant_data, field_name, None)\<close> returns for a required field.\<close>

datatype attr = AttrNone | AttrField ExtractedField | AttrMember TeamMember

fun attr_of_field :: "ExtractedField option \<Rightarrow> attr" where
  "attr_of_field None = AttrNone"
| "attr_of_field (Some e) = AttrField e"

fun attr_of_member :: "TeamMember option \<Rightarrow> attr" where
  "attr_of_member None = AttrNone"
| "attr_of_member (Some m) = AttrMember m"

definition getattr :: "GrantData \<Rightarrow> string \<Rightarrow> attr" where
  "getattr g n =
     (if n = ''grant_id'' then attr_of_field (grant_id g)
      else if n = ''grant_name'' then attr_of_field (grant_name g)
      else if n = ''funding_agency'' then attr_of_field (funding_agency g)
      else if n = ''award_amount'' then attr_of_field (award_amount g)
      else if n = ''principal_investigator'' then attr_of_member (principal_investigator g)
      else AttrNone)"

text \<open>\<^verbatim>\<open>not field_value or not field_value.value\<close>: a \<^verbatim>\<open>TeamMember\<close> is truthy and
  has no attribute \<^verbatim>\<open>value\<close>.\<close>

fun field_missing :: "attr \<Rightarrow> exn + bool" where
  "field_missing AttrNone = Inr True"
| "field_missing (AttrField e) = Inr (if py_bool (value' e) then False else True)"
| "field_missing (AttrMember m) = Inl AttributeError"

fun check_required :: "GrantData \<Rightarrow> string list \<Rightarrow> string list \<Rightarrow> exn + string list" where
  "check_required g [] acc = Inr acc"
| "check_required g (n # ns) acc =
     and_then (field_missing (getattr g n))
       (\<lambda>b. check_required g ns (if b then acc @ [n] else acc))"

text \<open>The body of the \<^verbatim>\<open>try\<close> of the date check, then the check with its handler: only
  ValueError is caught.\<close>

definition compare_dates :: "pylib \<Rightarrow> pyval \<Rightarrow> pyval \<Rightarrow> exn + string list" where
  "compare_dates L s e =
     and_then (py_fromisoformat L s) (\<lambda>start_date.
     and_then (py_fromisoformat L e) (\<lambda>end_date.
     and_then (datetime_ge start_date end_date) (\<lambda>b.
       Inr (if b then [''Project start date is after end date''] else []))))"

fun catch_value_error :: "exn + string list \<Rightarrow> string list \<Rightarrow> exn + string list" where
  "catch_value_error (Inl ValueError) h = Inr h"
| "catch_value_error r h = r"

fun catch_value_type_error :: "exn + string list \<Rightarrow> string list \<Rightarrow> exn + string list" where
  "catch_value_type_error (Inl ValueError) h = Inr h"
| "catch_value_type_error (Inl TypeError) h = Inr h"
| "catch_value_type_error r h = r"

fun check_dates :: "pylib \<Rightarrow> ExtractedField option \<Rightarrow> ExtractedField option \<Rightarrow> exn + string list" where
  "check_dates L (Some s) (Some e) =
     (if py_bool (value' s) \<and> py_bool (value' e)
      then catch_value_error (compare_dates L (value' s) (value' e)) [''Invalid date format'']
      else Inr [])"
| "check_dates L s e = Inr []"

text \<open>The running sum of the budget check: the int \<open>0\<close> until a component is added.\<close>

datatype pynum = IntZero | FloatNum pyfloat

fun to_float :: "pynum \<Rightarrow> pyfloat" where
  "to_float IntZero = Fin 0"
| "to_float (FloatNum x) = x"

fun str_of_num :: "pylib \<Rightarrow> pynum \<Rightarrow> string" where
  "str_of_num L IntZero = ''0''"
| "str_of_num L (FloatNum x) = str_of_float L x"

text \<open>The inner loop over the six components; its handler passes over ValueError and
  TypeError.\<close>

fun sum_components :: "pylib \<Rightarrow> ExtractedField option list \<Rightarrow> pynum \<Rightarrow> exn + pynum" where
  "sum_components L [] acc = Inr acc"
| "sum_components L (None # fs) acc = sum_components L fs acc"
| "sum_components L (Some e # fs) acc =
     (if py_bool (value' e)
      then (case py_float L (value' e) of
              Inr x \<Rightarrow> sum_components L fs (FloatNum (float_add L (to_float acc) x))
            | Inl ValueError \<Rightarrow> sum_components L fs acc
            | Inl TypeError \<Rightarrow> sum_components L fs acc
            | Inl err \<Rightarrow> Inl err)
      else sum_components L fs acc)"

definition budget_components :: "BudgetSummary \<Rightarrow> ExtractedField option list" where
  "budget_components b =
     [personnel b, equipment b, travel b, supplies b, indirect_costs b, other b]"

definition budget_mismatch :: "pylib \<Rightarrow> pyfloat \<Rightarrow> pynum \<Rightarrow> string" where
  "budget_mismatch L t c =
     ''Budget total ('' @ str_of_float L t @ '') doesn'' @ [CHR 0x27] @
     ''t match sum of components ('' @ str_of_num L c @ '')''"

definition compare_budget :: "pylib \<Rightarrow> BudgetSummary \<Rightarrow> pyval \<Rightarrow> exn + string list" where
  "compare_budget L b v =
     and_then (py_float L v) (\<lambda>t.
     and_then (sum_components L (budget_components b) IntZero) (\<lambda>calculated_total.
       Inr (if float_lt (Fin 1000) (float_abs (float_sub L t (to_float calculated_total)))
            then [budget_mismatch L t calculated_total] else [])))"

fun check_budget :: "pylib \<Rightarrow> BudgetSummary \<Rightarrow> exn + string list" where
  "check_budget L b =
     (case total' b of
        None \<Rightarrow> Inr []
      | Some e \<Rightarrow>
          if py_bool (value' e)
          then catch_value_type_error (compare_budget L b (value' e)) [''Invalid budget total format'']
          else Inr [])"

definition classify_amount :: "pylib \<Rightarrow> pyval \<Rightarrow> exn + string list" where
  "classify_amount L v =
     and_then (py_float L v) (\<lambda>amount.
       Inr (if float_le amount (Fin 0) then [''Award amount is zero or negative'']
            else if float_lt (Fin 50000000) amount then [''Award amount seems unusually high'']
            else []))"

fun check_award_amount :: "pylib \<Rightarrow> ExtractedField option \<Rightarrow> exn + string list" where
  "check_award_amount L None = Inr []"
| "check_award_amount L (Some e) =
     (if py_bool (value' e)
      then catch_value_type_error (classify_amount L (value' e)) [''Award amount is not a valid number'']
      else Inr [])"

text \<open>The attributes of \<^verbatim>\<open>grant_data.__dict__\<close> that can hold an \<^verbatim>\<open>ExtractedField\<close>.\<close>

definition extracted_items :: "GrantData \<Rightarrow> (string \<times> ExtractedField option) list" where
  "extracted_items g =
     [(''grant_id'', grant_id g), (''grant_name'', grant_name g),
      (''funding_agency'', funding_agency g), (''award_amount'', award_amount g),
      (''grant_type'', grant_type g), (''current_status'', current_status g),
      (''progress_notes'', progress_notes g)]"

fun is_low_confidence :: "string \<times> ExtractedField option \<Rightarrow> bool" where
  "is_low_confidence (n, None) = False"
| "is_low_confidence (n, Some e) = (confidence e = LOW \<or> confidence e = UNCERTAIN)"

definition low_confidence_fields :: "GrantData \<Rightarrow> string list" where
  "low_confidence_fields g = map fst (filter is_low_confidence (extracted_items g))"

definition low_confidence_entry :: "GrantData \<Rightarrow> string list" where
  "low_confidence_entry g =
     (if low_confidence_fields g = [] then []
      else [''Low confidence extraction for: '' @ join_comma (low_confidence_fields g)])"

text \<open>\<^verbatim>\<open>bool(a or b or c or len(s) > 2)\<close>: \<^verbatim>\<open>or\<close> yields its first operand when
  that is truthy (a non-empty list), and goes on to the next otherwise.\<close>

definition review_needed :: "string list \<Rightarrow> string list \<Rightarrow> string list \<Rightarrow> string list \<Rightarrow> bool" where
  "review_needed m d b s =
     (if m = [] then (if d = [] then (if b = [] then 2 < length s else True) else True)
      else True)"

definition validate :: "pylib \<Rightarrow> GrantData \<Rightarrow> exn + ValidationFlags" where
  "validate L g =
     and_then (check_required g REQUIRED_FIELDS []) (\<lambda>m.
     and_then (check_dates L (project_start_date (timeline g)) (project_end_date (timeline g))) (\<lambda>d.
     and_then (check_budget L (budget g)) (\<lambda>b.
     and_then (check_award_amount L (award_amount g)) (\<lambda>a.
       Inr \<lparr>missing_required_fields = m, inconsistent_dates = d,
            budget_calculation_errors = b,
            suspicious_values = a @ low_confidence_entry g,
            needs_human_review = review_needed m d b (a @ low_confidence_entry g)\<rparr>))))"

text \<open>\<^verbatim>\<open>create_sample_grant_data()\<close>, the sample the module validates when it is run.\<close>

definition create_sample_grant_data :: GrantData where
  "create_sample_grant_data = empty_grant_data
     \<lparr>grant_id := Some (field (PStr ''NSF-2024-001'') HIGH),
      grant_name := Some (field (PStr ''AI Research Initiative'') HIGH),
      funding_agency := Some (field (PStr ''National Science Foundation'') HIGH),
      award_amount := Some (field (PInt 500000) MEDIUM),
      grant_type := Some (field (PStr ''Research'') HIGH),
      timeline := empty_timeline
        \<lparr>project_start_date := Some (field (PStr ''2024-01-01'') MEDIUM),
         project_end_date := Some (field (PStr ''2026-12-31'') MEDIUM)\<rparr>,
      principal_investigator := Some
        \<lparr>name = Some (field (PStr ''Dr. Jane Smith'') HIGH),
         role = Some (field (PStr ''Principal Investigator'') HIGH),
         institution = None, email = None\<rparr>\<rparr>"

text \<open>An instance of the library functions for evaluating the model on concrete inputs:
  the strings used below are read as Python reads them, and ints up to \<open>2 ^ 53\<close>
  convert exactly; sums and differences are the exact ones; every other datetime is
  printed in a unary code, so that \<^verbatim>\<open>fromisoformat\<close> inverts \<^verbatim>\<open>isoformat\<close>
  everywhere.\<close>

fun exact_add :: "pyfloat \<Rightarrow> pyfloat \<Rightarrow> pyfloat" where
  "exact_add NaN y = NaN"
| "exact_add x NaN = NaN"
| "exact_add PosInf NegInf = NaN"
| "exact_add NegInf PosInf = NaN"
| "exact_add PosInf y = PosInf"
| "exact_add x PosInf = PosInf"
| "exact_add NegInf y = NegInf"
| "exact_add x NegInf = NegInf"
| "exact_add (Fin a) (Fin b) = Fin (a + b)"

fun exact_neg :: "pyfloat \<Rightarrow> pyfloat" where
  "exact_neg (Fin a) = Fin (- a)"
| "exact_neg PosInf = NegInf"
| "exact_neg NegInf = PosInf"
| "exact_neg NaN = NaN"

definition sample_float_of_int :: "int \<Rightarrow> pyfloat option" where
  "sample_float_of_int i = (if \<bar>i\<bar> \<le> 2 ^ 53 then Some (Fin (real_of_int i)) else None)"

fun enc_int :: "int \<Rightarrow> string" where
  "enc_int i = (if i < 0 then CHR ''-'' else CHR ''+'') # replicate (nat \<bar>i\<bar>) CHR ''1''"

fun dec_int :: "string \<Rightarrow> int" where
  "dec_int [] = 0"
| "dec_int (c # r) = (if c = CHR ''-'' then - int (length r) else int (length r))"

fun enc_datetime :: "pydatetime \<Rightarrow> string" where
  "enc_datetime (Naive t) = CHR ''N'' # enc_int t"
| "enc_datetime (Aware t off) = CHR ''A'' # enc_int t @ enc_int off"

fun dec_datetime :: "string \<Rightarrow> pydatetime option" where
  "dec_datetime (c # sg # r) =
     (if c = CHR ''N'' then Some (Naive (dec_int (sg # r)))
      else if c = CHR ''A'' then
        Some (Aware (dec_int (sg # takeWhile (\<lambda>x. x = CHR ''1'') r))
                    (dec_int (dropWhile (\<lambda>x. x = CHR ''1'') r)))
      else None)"
| "dec_datetime s = None"

definition sample_isoformat :: "pydatetime \<Rightarrow> string" where
  "sample_isoformat d =
     (if d = Naive 0 then ''2024-01-01T00:00:00''
      else if d = Naive 60000000 then ''2024-01-01T00:01:00''
      else if d = Naive 120000000 then ''2024-01-01T00:02:00''
      else enc_datetime d)"

definition sample_fromisoformat :: "string \<Rightarrow> pydatetime option" where
  "sample_fromisoformat s =
     (if s = ''2024-01-01T00:00:00'' then Some (Naive 0)
      else if s = ''2024-01-01T00:01:00'' then Some (Naive 60000000)
      else if s = ''2024-01-01T00:02:00'' then Some (Naive 120000000)
      else if s = ''2024-01-01'' then Some (Naive 0)
      else if s = ''2026-12-31'' then Some (Naive 94608000000000)
      else dec_datetime s)"

definition sample_lib :: pylib where
  "sample_lib = \<lparr>
     float_of_str = map_of [(''500000'', Fin 500000), (''-5'', Fin (-5)), (''0'', Fin 0)],
     float_of_int = sample_float_of_int,
     float_add = exact_add,
     float_sub = (\<lambda>x y. exact_add x (exact_neg y)),
     fromisoformat = sample_fromisoformat,
     isoformat = sample_isoformat,
     str_of_float = (\<lambda>x. ''?'')\<rparr>"

text \<open>Presence as the specification words it, but without trimming: a value that is
  neither null nor empty. Python's truthiness differs from it on the zero values.\<close>

fun nonempty_value :: "pyval \<Rightarrow> bool" where
  "nonempty_value PNone = False"
| "nonempty_value (PStr s) = (s \<noteq> [])"
| "nonempty_value (PList xs) = (xs \<noteq> [])"
| "nonempty_value (PDict kvs) = (kvs \<noteq> [])"
| "nonempty_value v = True"

fun is_present :: "ExtractedField option \<Rightarrow> bool" where
  "is_present None = False"
| "is_present (Some e) = nonempty_value (value' e)"

fun zero_value :: "pyval \<Rightarrow> bool" where
  "zero_value (PBool b) = (b = False)"
| "zero_value (PInt i) = (i = 0)"
| "zero_value (PFloat x) = (x = Fin 0)"
| "zero_value v = False"

fun zero_valued :: "ExtractedField option \<Rightarrow> bool" where
  "zero_valued None = False"
| "zero_valued (Some e) = zero_value (value' e)"

fun name_unless :: "bool \<Rightarrow> string \<Rightarrow> string list" where
  "name_unless present n = (if present then [] else [n])"

definition whitespace_grant_id :: GrantData where
  "whitespace_grant_id = empty_grant_data\<lparr>grant_id := Some (field (PStr ''   '') HIGH)\<rparr>"

definition zero_award_amount :: GrantData where
  "zero_award_amount = empty_grant_data\<lparr>award_amount := Some (field (PInt 0) HIGH)\<rparr>"



definition int_start_date :: GrantData where
  "int_start_date = empty_grant_data
     \<lparr>timeline := empty_timeline
        \<lparr>project_start_date := Some (field (PInt 20240101) HIGH),
         project_end_date := Some (field (PStr ''2026-12-31'') HIGH)\<rparr>\<rparr>"


section \<open>workflow\_manager.py: the ledger and the state machine\<close>

datatype WorkflowState =
  PENDING | PROCESSING | EXTRACTED | VALIDATED | APPROVED | COMPLETED | ERROR

fun state_value :: "WorkflowState \<Rightarrow> string" where
  "state_value PENDING = ''pending''"
| "state_value PROCESSING = ''processing''"
| "state_value EXTRACTED = ''extracted''"
| "state_value VALIDATED = ''validated''"
| "state_value APPROVED = ''approved''"
| "state_value COMPLETED = ''completed''"
| "state_value ERROR = ''error''"

text \<open>\<^verbatim>\<open>WorkflowState(v)\<close>, the lookup of a member by its value.\<close>

fun WorkflowState_of_value :: "pyval \<Rightarrow> exn + WorkflowState" where
  "WorkflowState_of_value (PStr s) =
     (case map_of (map (\<lambda>st. (state_value st, st))
                [PENDING, PROCESSING, EXTRACTED, VALIDATED, APPROVED, COMPLETED, ERROR]) s of
        None \<Rightarrow> Inl ValueError
      | Some st \<Rightarrow> Inr st)"
| "WorkflowState_of_value v = Inl ValueError"

text \<open>The dataclass checks no type: a record read back from the ledger file holds
  whatever JSON values the file has under \<^verbatim>\<open>filename\<close>, \<^verbatim>\<open>original_path\<close>,
  \<^verbatim>\<open>metadata\<close> and \<^verbatim>\<open>error_message\<close>.\<close>

record DocumentInfo =
  filename :: pyval
  original_path :: pyval
  current_state :: WorkflowState
  created_at :: pydatetime
  updated_at :: pydatetime
  metadata :: pyval
  error_message :: pyval

text \<open>A \<^verbatim>\<open>Dict[str, DocumentInfo]\<close>: the items in insertion order. Assigning to a key
  replaces the value in place, or appends the item, as \<open>AList.update\<close> does.\<close>

type_synonym ledger = "(string \<times> DocumentInfo) list"

subsection \<open>Paths and files\<close>

text \<open>A path is the list of its components (POSIX; \<^verbatim>\<open>..\<close> is not resolved). Empty
  components and \<^verbatim>\<open>.\<close> are dropped, as \<^verbatim>\<open>pathlib\<close> drops them.\<close>

type_synonym path = "string list"

fun split_slash :: "string \<Rightarrow> string list" where
  "split_slash [] = [[]]"
| "split_slash (c # cs) =
     (if c = CHR ''/'' then [] # split_slash cs
      else (case split_slash cs of [] \<Rightarrow> [[c]] | x # xs \<Rightarrow> (c # x) # xs))"

fun is_component :: "string \<Rightarrow> bool" where
  "is_component c = (if c = [] then False else if c = ''.'' then False else True)"

definition parts :: "string \<Rightarrow> path" where
  "parts s = (if take 1 s = ''/'' then [''/''] else []) @ filter is_component (split_slash s)"

text \<open>\<^verbatim>\<open>Path(s).name\<close> and \<^verbatim>\<open>p / s\<close>.\<close>

definition path_name :: "string \<Rightarrow> string" where
  "path_name s = (case filter is_component (split_slash s) of [] \<Rightarrow> [] | c # cs \<Rightarrow> last (c # cs))"


text \<open>What is at a path: a file holding a JSON document, given by the value
  \<^verbatim>\<open>json.load\<close> returns for it, a file holding anything else (an empty or truncated
  file, an uploaded document), or a directory. The file system says, for every path,
  what \<^verbatim>\<open>exists()\<close> and \<^verbatim>\<open>open\<close> find there.\<close>

datatype content = Json pyval | NotJson | Directory

type_synonym fs = "path \<Rightarrow> content option"

text \<open>What the environment does during one call: the library, the reading of the clock,
  whether writing the ledger file fails (at \<^verbatim>\<open>open\<close>, as when its directory is
  missing, or inside \<^verbatim>\<open>json.dump\<close>), and the relocation: what
  \<^verbatim>\<open>to_dir.mkdir(parents=True, exist_ok=True)\<close> followed by
  \<^verbatim>\<open>shutil.move(from_path, to_path)\<close> does to a file system, given the target
  directory and the two paths. It yields the text of the exception that is raised, if one
  is, and the file system that is left.\<close>

datatype write_outcome = WriteOk | OpenFails | DumpFails

record env =
  lib :: pylib
  now :: pydatetime
  write_outcome :: write_outcome
  relocate :: "fs \<Rightarrow> path \<Rightarrow> path \<Rightarrow> path \<Rightarrow> string option \<times> fs"

record WorkflowManager =
  base_path :: path
  intake_path :: path
  workflows_path :: path
  grants_path :: path
  state_dirs :: "(WorkflowState \<times> path) list"
  status_file :: path

definition init :: "string \<Rightarrow> WorkflowManager" where
  "init base =
     (let b = parts base; intake = b @ [''intake'']; workflows = b @ [''workflows''] in
      \<lparr>base_path = b, intake_path = intake, workflows_path = workflows,
       grants_path = b @ [''grants''],
       state_dirs =
         [(PENDING, intake @ [''pending'']), (PROCESSING, intake @ [''processing'']),
          (EXTRACTED, workflows @ [''extracted'']), (VALIDATED, workflows @ [''validated'']),
          (APPROVED, workflows @ [''approved''])],
       status_file = workflows @ [''workflow_status.json'']\<rparr>)"

subsection \<open>get\_workflow\_status\<close>

text \<open>\<^verbatim>\<open>data[k]\<close>, \<^verbatim>\<open>data.get(k)\<close> and \<^verbatim>\<open>data.items()\<close> on a loaded JSON value.\<close>

fun getitem :: "pyval \<Rightarrow> string \<Rightarrow> exn + pyval" where
  "getitem (PDict kvs) k = (case map_of kvs k of None \<Rightarrow> Inl KeyError | Some v \<Rightarrow> Inr v)"
| "getitem v k = Inl TypeError"

fun py_get :: "pyval \<Rightarrow> string \<Rightarrow> exn + pyval" where
  "py_get (PDict kvs) k = (case map_of kvs k of None \<Rightarrow> Inr PNone | Some v \<Rightarrow> Inr v)"
| "py_get v k = Inl AttributeError"

fun py_items :: "pyval \<Rightarrow> exn + (string \<times> pyval) list" where
  "py_items (PDict kvs) = Inr kvs"
| "py_items v = Inl AttributeError"

definition load_document :: "pylib \<Rightarrow> pyval \<Rightarrow> exn + DocumentInfo" where
  "load_document L data =
     and_then (getitem data ''filename'') (\<lambda>fn.
     and_then (getitem data ''original_path'') (\<lambda>op.
     and_then (and_then (getitem data ''current_state'') WorkflowState_of_value) (\<lambda>st.
     and_then (and_then (getitem data ''created_at'') (py_fromisoformat L)) (\<lambda>ca.
     and_then (and_then (getitem data ''updated_at'') (py_fromisoformat L)) (\<lambda>ua.
     and_then (getitem data ''metadata'') (\<lambda>md.
     and_then (py_get data ''error_message'') (\<lambda>em.
       Inr \<lparr>filename = fn, original_path = op, current_state = st, created_at = ca,
            updated_at = ua, metadata = md, error_message = em\<rparr>)))))))"

fun load_items :: "pylib \<Rightarrow> (string \<times> pyval) list \<Rightarrow> ledger \<Rightarrow> exn + ledger" where
  "load_items L [] workflow_status = Inr workflow_status"
| "load_items L ((k, data) # rest) workflow_status =
     and_then (load_document L data)
       (\<lambda>doc. load_items L rest (AList.update k doc workflow_status))"

text \<open>The body of the \<^verbatim>\<open>try\<close>: \<^verbatim>\<open>json.load\<close>, then the conversion loop.\<close>

fun load_status :: "pylib \<Rightarrow> content \<Rightarrow> exn + ledger" where
  "load_status L NotJson = Inl ValueError"
| "load_status L Directory = Inl OSError"
| "load_status L (Json status_data) =
     and_then (py_items status_data) (\<lambda>items. load_items L items [])"

definition get_workflow_status :: "pylib \<Rightarrow> WorkflowManager \<Rightarrow> fs \<Rightarrow> ledger" where
  "get_workflow_status L self fs =
     (case fs (status_file self) of
        None \<Rightarrow> []
      | Some c \<Rightarrow> (case load_status L c of Inl e \<Rightarrow> [] | Inr workflow_status \<Rightarrow> workflow_status))"

subsection \<open>save\_workflow\_status\<close>

definition dump_document :: "pylib \<Rightarrow> DocumentInfo \<Rightarrow> pyval" where
  "dump_document L doc_info =
     PDict [(''filename'', filename doc_info),
            (''original_path'', original_path doc_info),
            (''current_state'', PStr (state_value (current_state doc_info))),
            (''created_at'', PStr (isoformat L (created_at doc_info))),
            (''updated_at'', PStr (isoformat L (updated_at doc_info))),
            (''metadata'', metadata doc_info),
            (''error_message'', error_message doc_info)]"

fun dump_items :: "pylib \<Rightarrow> ledger \<Rightarrow> (string \<times> pyval) list \<Rightarrow> (string \<times> pyval) list" where
  "dump_items L [] status_data = status_data"
| "dump_items L ((k, doc_info) # rest) status_data =
     dump_items L rest (AList.update k (dump_document L doc_info) status_data)"

text \<open>\<^verbatim>\<open>open(self.status_file, 'w')\<close> creates the file or truncates it to nothing;
  \<^verbatim>\<open>json.dump\<close> then writes the document into it. The steps act on the ledger file
  itself.\<close>

datatype fs_op = OpenWrite path | JsonDump path pyval

fun apply_op :: "fs \<Rightarrow> fs_op \<Rightarrow> fs" where
  "apply_op fs (OpenWrite p) = fs(p \<mapsto> NotJson)"
| "apply_op fs (JsonDump p v) = fs(p \<mapsto> Json v)"

definition save_ops :: "pylib \<Rightarrow> WorkflowManager \<Rightarrow> ledger \<Rightarrow> fs_op list" where
  "save_ops L self workflow_status =
     [OpenWrite (status_file self),
      JsonDump (status_file self) (PDict (dump_items L workflow_status []))]"

text \<open>A save cut short after \<open>k\<close> of its steps.\<close>

definition interrupted_save :: "pylib \<Rightarrow> WorkflowManager \<Rightarrow> fs \<Rightarrow> ledger \<Rightarrow> nat \<Rightarrow> fs" where
  "interrupted_save L self fs workflow_status k =
     foldl apply_op fs (take k (save_ops L self workflow_status))"

text \<open>The handler of \<^verbatim>\<open>save_workflow_status\<close> prints the exception and returns: a
  failing \<^verbatim>\<open>open\<close> leaves the file as it was, a failing \<^verbatim>\<open>json.dump\<close> leaves it cut
  short.\<close>

definition save_workflow_status :: "env \<Rightarrow> WorkflowManager \<Rightarrow> fs \<Rightarrow> ledger \<Rightarrow> fs" where
  "save_workflow_status E self fs workflow_status =
     (case write_outcome E of
        WriteOk \<Rightarrow> foldl apply_op fs (save_ops (lib E) self workflow_status)
      | OpenFails \<Rightarrow> fs
      | DumpFails \<Rightarrow> interrupted_save (lib E) self fs workflow_status 1)"

subsection \<open>The operations\<close>

definition register_document :: "env \<Rightarrow> WorkflowManager \<Rightarrow> fs \<Rightarrow> string \<Rightarrow> pyval \<Rightarrow> fs \<times> string" where
  "register_document E self fs filepath metadata0 =
     (let metadata1 = (if metadata0 = PNone then PDict [] else metadata0);
          fname = path_name filepath;
          current_time = now E;
          doc_info = \<lparr>filename = PStr fname, original_path = PStr filepath,
                      current_state = PENDING, created_at = current_time,
                      updated_at = current_time, metadata = metadata1,
                      error_message = PNone\<rparr>;
          workflow_status = get_workflow_status (lib E) self fs
      in (save_workflow_status E self fs (AList.update fname doc_info workflow_status), fname))"

fun opt_str :: "string option \<Rightarrow> pyval" where
  "opt_str None = PNone"
| "opt_str (Some s) = PStr s"

definition transition_state ::
  "env \<Rightarrow> WorkflowManager \<Rightarrow> fs \<Rightarrow> string \<Rightarrow> WorkflowState \<Rightarrow> string option \<Rightarrow> fs \<times> bool" where
  "transition_state E self fs fname new_state message =
     (let workflow_status = get_workflow_status (lib E) self fs in
      case map_of workflow_status fname of
        None \<Rightarrow> (fs, False)
      | Some doc_info \<Rightarrow>
          (save_workflow_status E self fs
             (AList.update fname
                (doc_info\<lparr>current_state := new_state, updated_at := now E,
                           error_message := opt_str message\<rparr>)
                workflow_status),
           True))"


definition list_documents_by_state ::
  "pylib \<Rightarrow> WorkflowManager \<Rightarrow> fs \<Rightarrow> WorkflowState \<Rightarrow> DocumentInfo list" where
  "list_documents_by_state L self fs state =
     filter (\<lambda>doc. current_state doc = state) (map snd (get_workflow_status L self fs))"

text \<open>\<^verbatim>\<open>documents.sort(key=lambda x: x.created_at)\<close> is a stable sort; comparing a naive
  with an aware datetime raises TypeError, which happens as soon as the list holds both
  kinds. \<^verbatim>\<open>documents[:limit]\<close> counts a negative limit from the end.\<close>

fun time_key :: "pydatetime \<Rightarrow> int" where
  "time_key (Naive t) = t"
| "time_key (Aware t off) = t"

fun is_naive :: "pydatetime \<Rightarrow> bool" where
  "is_naive (Naive t) = True"
| "is_naive (Aware t off) = False"

fun is_aware :: "pydatetime \<Rightarrow> bool" where
  "is_aware (Naive t) = False"
| "is_aware (Aware t off) = True"

definition py_sort_created :: "DocumentInfo list \<Rightarrow> exn + DocumentInfo list" where
  "py_sort_created documents =
     (if filter (\<lambda>d. is_naive (created_at d)) documents = [] then
        Inr (sort_key (\<lambda>d. time_key (created_at d)) documents)
      else if filter (\<lambda>d. is_aware (created_at d)) documents = [] then
        Inr (sort_key (\<lambda>d. time_key (created_at d)) documents)
      else Inl TypeError)"

definition slice_to :: "int \<Rightarrow> 'a list \<Rightarrow> 'a list" where
  "slice_to limit xs =
     take (nat (if limit < 0 then int (length xs) + limit else limit)) xs"

definition get_next_documents_for_processing ::
  "pylib \<Rightarrow> WorkflowManager \<Rightarrow> fs \<Rightarrow> WorkflowState \<Rightarrow> int \<Rightarrow> exn + pyval list" where
  "get_next_documents_for_processing L self fs state limit =
     and_then (py_sort_created (list_documents_by_state L self fs state))
       (\<lambda>documents. Inr (map filename (slice_to limit documents)))"


text \<open>\<^verbatim>\<open>datetime.fromisoformat\<close> inverts \<^verbatim>\<open>datetime.isoformat\<close>.\<close>

definition iso_roundtrip :: "pylib \<Rightarrow> bool" where
  "iso_roundtrip L = (\<forall>d. fromisoformat L (isoformat L d) = Some d)"


subsection \<open>Sample ledgers\<close>

text \<open>A manager at the current directory, a quiet environment, and ledger files as the
  program writes them. The relocation of the quiet environment is that of a plain file
  to a path where nothing is.\<close>

definition wm :: WorkflowManager where
  "wm = init ''.''"

definition move_file :: "fs \<Rightarrow> path \<Rightarrow> path \<Rightarrow> path \<Rightarrow> string option \<times> fs" where
  "move_file fs to_dir from_path to_path =
     (None, ((fs(to_dir \<mapsto> Directory))(from_path := None))(to_path := fs from_path))"


definition env0 :: env where
  "env0 = \<lparr>lib = sample_lib, now = Naive 120000000, write_outcome = WriteOk,
     relocate = move_file\<rparr>"

definition doc_json :: "string \<Rightarrow> string \<Rightarrow> string \<Rightarrow> pyval" where
  "doc_json n st created =
     PDict [(''filename'', PStr n), (''original_path'', PStr (''intake/pending/'' @ n)),
            (''current_state'', PStr st), (''created_at'', PStr created),
            (''updated_at'', PStr created), (''metadata'', PDict []),
            (''error_message'', PNone)]"

definition sample_doc :: "string \<Rightarrow> WorkflowState \<Rightarrow> int \<Rightarrow> DocumentInfo" where
  "sample_doc n st t =
     \<lparr>filename = PStr n, original_path = PStr (''intake/pending/'' @ n), current_state = st,
      created_at = Naive t, updated_at = Naive t, metadata = PDict [],
      error_message = PNone\<rparr>"

definition fs_a :: fs where
  "fs_a =
     [status_file wm \<mapsto>
        Json (PDict [(''a.pdf'', doc_json ''a.pdf'' ''pending'' ''2024-01-01T00:00:00'')]),
      [''workflows''] \<mapsto> Directory, [''intake''] \<mapsto> Directory,
      [''intake'', ''pending''] \<mapsto> Directory,
      [''intake'', ''pending'', ''a.pdf''] \<mapsto> NotJson]"

definition fs_cba :: fs where
  "fs_cba =
     [status_file wm \<mapsto> Json (PDict
        [(''c.pdf'', doc_json ''c.pdf'' ''pending'' ''2024-01-01T00:01:00''),
         (''b.pdf'', doc_json ''b.pdf'' ''pending'' ''2024-01-01T00:00:00''),
         (''a.pdf'', doc_json ''a.pdf'' ''pending'' ''2024-01-01T00:00:00'')])]"


text \<open>The record that \<^verbatim>\<open>register_document\<close> builds.\<close>

definition new_document :: "env \<Rightarrow> string \<Rightarrow> pyval \<Rightarrow> DocumentInfo" where
  "new_document E filepath metadata0 =
     \<lparr>filename = PStr (path_name filepath), original_path = PStr filepath,
      current_state = PENDING, created_at = now E, updated_at = now E,
      metadata = (if metadata0 = PNone then PDict [] else metadata0),
      error_message = PNone\<rparr>"

definition fs_corrupt :: fs where
  "fs_corrupt = [status_file wm \<mapsto> NotJson]"

definition fs_bad_state :: fs where
  "fs_bad_state =
     [status_file wm \<mapsto>
        Json (PDict [(''a.pdf'', doc_json ''a.pdf'' ''archived'' ''2024-01-01T00:00:00'')])]"

definition fs_b1 :: fs where
  "fs_b1 = fst (register_document env0 wm fs_a ''uploads/x/b.pdf'' PNone)"

definition fs_b2 :: fs where
  "fs_b2 = fst (register_document (env0\<lparr>now := Naive 60000000\<rparr>) wm fs_b1 ''other/b.pdf''
             (PDict [(''source'', PStr ''cli'')]))"




definition env_unwritable :: env where
  "env_unwritable = env0\<lparr>write_outcome := OpenFails\<rparr>"


section \<open>Properties of the validator\<close>

lemma and_then_Inr_iff:
  "and_then r k = Inr y \<longleftrightarrow> (\<exists>x. r = Inr x \<and> k x = Inr y)"
  by (cases r) simp_all

lemma validate_Inr_iff:
  "validate L g = Inr f \<longleftrightarrow>
     (\<exists>m d b a.
        check_required g REQUIRED_FIELDS [] = Inr m \<and>
        check_dates L (project_start_date (timeline g)) (project_end_date (timeline g)) = Inr d \<and>
        check_budget L (budget g) = Inr b \<and>
        check_award_amount L (award_amount g) = Inr a \<and>
        f = \<lparr>missing_required_fields = m, inconsistent_dates = d,
              budget_calculation_errors = b,
              suspicious_values = a @ low_confidence_entry g,
              needs_human_review = review_needed m d b (a @ low_confidence_entry g)\<rparr>)"
  unfolding validate_def and_then_Inr_iff by auto

lemma py_bool_nonempty: "\<not> zero_value v \<Longrightarrow> py_bool v = nonempty_value v"
  by (cases v) auto

lemma field_missing_present:
  "\<not> zero_valued fo \<Longrightarrow>
     field_missing (attr_of_field fo) = Inr (if is_present fo then False else True)"
  by (cases fo) (simp_all add: py_bool_nonempty)

text \<open>
  C2 (the code departs from the claim). The claim: \<^verbatim>\<open>validate\<close> returns flags for every
  extraction result and never raises. On the module's own sample, which has a principal
  investigator, the required-field loop reads \<^verbatim>\<open>.value\<close> of the \<^verbatim>\<open>TeamMember\<close> and
  raises AttributeError; on a start date whose value is an int,
  \<^verbatim>\<open>datetime.fromisoformat\<close> raises a TypeError that the handler (ValueError only)
  lets through.
\<close>

theorem validate_raises:
  "validate L create_sample_grant_data = Inl AttributeError \<and>
   validate L int_start_date = Inl TypeError"
  by (simp add: validate_def create_sample_grant_data_def int_start_date_def
      empty_grant_data_def empty_timeline_def empty_budget_def REQUIRED_FIELDS_def
      getattr_def field_def compare_dates_def)







text \<open>
  C4 (corrected). The claim takes a field for present when its value is non-null and
  non-empty after trimming, and judges a present principal investigator by the name.
  The code tests Python truthiness and trims nothing: a whitespace-only grant id is not
  reported as missing.
\<close>

theorem whitespace_grant_id_not_missing:
  "validate sample_lib whitespace_grant_id =
     Inr \<lparr>missing_required_fields =
            [''grant_name'', ''funding_agency'', ''award_amount'', ''principal_investigator''],
          inconsistent_dates = [], budget_calculation_errors = [],
          suspicious_values = [], needs_human_review = True\<rparr>"
  by (simp add: validate_def whitespace_grant_id_def empty_grant_data_def
      empty_timeline_def empty_budget_def REQUIRED_FIELDS_def getattr_def field_def
      low_confidence_entry_def low_confidence_fields_def extracted_items_def
      review_needed_def)

text \<open>
  C4 as amended. For an extraction result with no principal-investigator record, whose
  required values are not a zero (\<open>0\<close>, \<open>0.0\<close>, \<open>False\<close>), whenever \<^verbatim>\<open>validate\<close>
  returns flags: the name of a required field is in \<^verbatim>\<open>missing_required_fields\<close> exactly
  when the field is absent or its value is null or empty, with no trimming of strings;
  the names come in the order of \<^verbatim>\<open>REQUIRED_FIELDS\<close>, and
  \<^verbatim>\<open>principal_investigator\<close> is among them.
\<close>

theorem validate_missing_required_fields:
  assumes "principal_investigator g = None"
    and "\<not> zero_valued (grant_id g)" and "\<not> zero_valued (grant_name g)"
    and "\<not> zero_valued (funding_agency g)" and "\<not> zero_valued (award_amount g)"
    and "validate L g = Inr f"
  shows "missing_required_fields f =
           name_unless (is_present (grant_id g)) ''grant_id'' @
           name_unless (is_present (grant_name g)) ''grant_name'' @
           name_unless (is_present (funding_agency g)) ''funding_agency'' @
           name_unless (is_present (award_amount g)) ''award_amount'' @
           [''principal_investigator'']"
proof -
  from assms(6) have m: "check_required g REQUIRED_FIELDS [] = Inr (missing_required_fields f)"
    unfolding validate_Inr_iff by auto
  have "check_required g REQUIRED_FIELDS [] =
          Inr (name_unless (is_present (grant_id g)) ''grant_id'' @
               name_unless (is_present (grant_name g)) ''grant_name'' @
               name_unless (is_present (funding_agency g)) ''funding_agency'' @
               name_unless (is_present (award_amount g)) ''award_amount'' @
               [''principal_investigator''])"
    using assms(1-5)
    by (simp add: REQUIRED_FIELDS_def getattr_def field_missing_present)
  with m show ?thesis by simp
qed

theorem validate_missing_required_fields_witness:
  "principal_investigator whitespace_grant_id = None \<and>
   is_present (grant_id whitespace_grant_id) \<and>
   (\<exists>f. validate sample_lib whitespace_grant_id = Inr f \<and>
        missing_required_fields f =
          [''grant_name'', ''funding_agency'', ''award_amount'', ''principal_investigator''])"
proof -
  let ?f = "\<lparr>missing_required_fields =
            [''grant_name'', ''funding_agency'', ''award_amount'', ''principal_investigator''],
          inconsistent_dates = [], budget_calculation_errors = [],
          suspicious_values = [], needs_human_review = True\<rparr>"
  have h: "validate sample_lib whitespace_grant_id = Inr ?f"
    by (simp add: validate_def whitespace_grant_id_def empty_grant_data_def
      empty_timeline_def empty_budget_def REQUIRED_FIELDS_def getattr_def field_def
      low_confidence_entry_def low_confidence_fields_def extracted_items_def
      review_needed_def)
  have p: "principal_investigator whitespace_grant_id = None"
    by (simp add: whitespace_grant_id_def empty_grant_data_def)
  have z: "\<not> zero_valued (grant_id whitespace_grant_id)"
    "\<not> zero_valued (grant_name whitespace_grant_id)"
    "\<not> zero_valued (funding_agency whitespace_grant_id)"
    "\<not> zero_valued (award_amount whitespace_grant_id)"
    by (simp_all add: whitespace_grant_id_def empty_grant_data_def field_def)
  have "is_present (grant_id whitespace_grant_id)"
    by (simp add: whitespace_grant_id_def empty_grant_data_def field_def)
  with validate_missing_required_fields [OF p z h] p h show ?thesis
    by simp
qed

text \<open>
  C5 (the code departs from the claim). The claim: an award amount that is numeric and at
  most zero, zero included, raises the zero-or-negative flag. An amount of \<open>0\<close> (or
  \<open>0.0\<close>) is falsy, so the guard of the check skips it: no suspicious value is
  recorded, and the field is reported as missing instead.
\<close>

theorem zero_award_amount_not_flagged:
  "validate L zero_award_amount =
     Inr \<lparr>missing_required_fields =
            [''grant_id'', ''grant_name'', ''funding_agency'', ''award_amount'',
             ''principal_investigator''],
          inconsistent_dates = [], budget_calculation_errors = [],
          suspicious_values = [], needs_human_review = True\<rparr>"
  by (simp add: validate_def zero_award_amount_def empty_grant_data_def
      empty_timeline_def empty_budget_def REQUIRED_FIELDS_def getattr_def field_def
      low_confidence_entry_def low_confidence_fields_def extracted_items_def
      review_needed_def)

section \<open>Properties of the ledger\<close>

subsection \<open>Saving and loading\<close>

lemma dec_enc_int: "dec_int (enc_int i) = i"
  by simp

lemma takeWhile_ones: "c \<noteq> CHR ''1'' \<Longrightarrow> takeWhile (\<lambda>x. x = CHR ''1'') (replicate n CHR ''1'' @ c # r) = replicate n CHR ''1''"
  by (induction n) simp_all

lemma dropWhile_ones: "c \<noteq> CHR ''1'' \<Longrightarrow> dropWhile (\<lambda>x. x = CHR ''1'') (replicate n CHR ''1'' @ c # r) = c # r"
  by (induction n) simp_all

lemma dec_enc_datetime: "dec_datetime (enc_datetime d) = Some d"
  by (cases d) (simp_all add: takeWhile_ones dropWhile_ones)

lemma sample_lib_roundtrip: "iso_roundtrip sample_lib"
  unfolding iso_roundtrip_def sample_lib_def
  apply (rule allI)
  subgoal for d
    apply (cases d)
     apply (simp_all add: sample_isoformat_def sample_fromisoformat_def takeWhile_ones dropWhile_ones)
    done
  done

lemma update_fresh: "k \<notin> fst ` set al \<Longrightarrow> AList.update k v al = al @ [(k, v)]"
  by (induction al) auto

lemma dump_items_distinct:
  "distinct (map fst acc @ map fst ws) \<Longrightarrow>
   dump_items L ws acc = acc @ map (\<lambda>(k, d). (k, dump_document L d)) ws"
proof (induction ws arbitrary: acc)
  case Nil
  then show ?case by simp
next
  case (Cons a ws)
  obtain k d where a: "a = (k, d)" by (cases a)
  from Cons.prems have fresh: "k \<notin> fst ` set acc" by (auto simp: a)
  from Cons.prems have "distinct (map fst (acc @ [(k, dump_document L d)]) @ map fst ws)"
    by (auto simp: a)
  from Cons.IH[OF this] fresh show ?case
    by (simp add: a update_fresh)
qed

lemma WorkflowState_of_value_state_value:
  "WorkflowState_of_value (PStr (state_value st)) = Inr st"
  by (cases st) simp_all

lemma load_document_dump:
  "iso_roundtrip L \<Longrightarrow> load_document L (dump_document L d) = Inr d"
  by (simp add: load_document_def dump_document_def iso_roundtrip_def
      WorkflowState_of_value_state_value del: WorkflowState_of_value.simps)

lemma load_items_dump:
  "iso_roundtrip L \<Longrightarrow> distinct (map fst acc @ map fst ws) \<Longrightarrow>
   load_items L (map (\<lambda>(k, d). (k, dump_document L d)) ws) acc = Inr (acc @ ws)"
proof (induction ws arbitrary: acc)
  case Nil
  then show ?case by simp
next
  case (Cons a ws)
  obtain k d where a: "a = (k, d)" by (cases a)
  from Cons.prems have fresh: "k \<notin> fst ` set acc" by (auto simp: a)
  from Cons.prems have "distinct (map fst (acc @ [(k, d)]) @ map fst ws)"
    by (auto simp: a)
  from Cons.IH[OF Cons.prems(1) this] fresh Cons.prems(1) show ?case
    by (simp add: a update_fresh load_document_dump)
qed

lemma load_status_dump:
  "iso_roundtrip L \<Longrightarrow> distinct (map fst ws) \<Longrightarrow>
   load_status L (Json (PDict (dump_items L ws []))) = Inr ws"
  using dump_items_distinct[of "[]" ws L] load_items_dump[of L "[]" ws]
  by simp

lemma save_status_file:
  "write_outcome E = WriteOk \<Longrightarrow>
   save_workflow_status E self fs ws =
     fs(status_file self \<mapsto> Json (PDict (dump_items (lib E) ws [])))"
  by (simp add: save_workflow_status_def save_ops_def)

lemma save_load:
  "write_outcome E = WriteOk \<Longrightarrow> iso_roundtrip (lib E) \<Longrightarrow> distinct (map fst ws) \<Longrightarrow>
   get_workflow_status (lib E) self (save_workflow_status E self fs ws) = ws"
  by (simp add: save_status_file get_workflow_status_def load_status_dump
      del: load_status.simps)

lemma load_items_distinct:
  "load_items L items acc = Inr ws \<Longrightarrow> distinct (map fst acc) \<Longrightarrow> distinct (map fst ws)"
proof (induction items arbitrary: acc)
  case Nil
  then show ?case by simp
next
  case (Cons a items)
  obtain k data where a: "a = (k, data)" by (cases a)
  from Cons.prems(1) obtain doc where
    "load_items L items (AList.update k doc acc) = Inr ws"
    by (auto simp: a and_then_Inr_iff)
  moreover have "distinct (map fst (AList.update k doc acc))"
    using Cons.prems(2) by (simp add: distinct_update)
  ultimately show ?case by (rule Cons.IH)
qed

lemma get_workflow_status_distinct:
  "distinct (map fst (get_workflow_status L self fs))"
proof (cases "fs (status_file self)")
  case None
  then show ?thesis by (simp add: get_workflow_status_def)
next
  case (Some c)
  show ?thesis
  proof (cases "load_status L c")
    case (Inl e)
    with Some show ?thesis by (simp add: get_workflow_status_def)
  next
    case (Inr ws)
    then have "distinct (map fst ws)"
      by (cases c) (auto simp: and_then_Inr_iff dest: load_items_distinct)
    with Some Inr show ?thesis by (simp add: get_workflow_status_def)
  qed
qed

lemma interrupted_save_steps:
  "interrupted_save L self fs ws 0 = fs"
  "interrupted_save L self fs ws (Suc 0) = fs(status_file self \<mapsto> NotJson)"
  "interrupted_save L self fs ws (Suc (Suc k)) =
     fs(status_file self \<mapsto> Json (PDict (dump_items L ws [])))"
  by (simp_all add: interrupted_save_def save_ops_def)

lemma interrupted_save_other:
  "p \<noteq> status_file self \<Longrightarrow> interrupted_save L self fs ws k p = fs p"
  by (cases k rule: nat.exhaust; cases "k - 1" rule: nat.exhaust)
     (auto simp: interrupted_save_def save_ops_def)

lemma save_workflow_status_other:
  "p \<noteq> status_file self \<Longrightarrow> save_workflow_status E self fs ws p = fs p"
  by (cases "write_outcome E")
     (simp_all add: save_workflow_status_def save_ops_def interrupted_save_other)

lemma save_open_fails:
  "write_outcome E = OpenFails \<Longrightarrow> save_workflow_status E self fs ws = fs"
  by (simp add: save_workflow_status_def)

lemma save_dump_fails:
  "write_outcome E = DumpFails \<Longrightarrow>
   get_workflow_status L self (save_workflow_status E self fs ws) = []"
  by (simp add: save_workflow_status_def interrupted_save_steps get_workflow_status_def)

lemma wm_simps:
  "status_file wm = [''workflows'', ''workflow_status.json'']"
  "state_dirs wm =
     [(PENDING, [''intake'', ''pending'']), (PROCESSING, [''intake'', ''processing'']),
      (EXTRACTED, [''workflows'', ''extracted'']), (VALIDATED, [''workflows'', ''validated'']),
      (APPROVED, [''workflows'', ''approved''])]"
  by (simp_all add: wm_def init_def parts_def Let_def)

lemma env0_simps:
  "lib env0 = sample_lib" "now env0 = Naive 120000000" "write_outcome env0 = WriteOk"
  "relocate env0 = move_file"
  by (simp_all add: env0_def)

lemma load_doc_json:
  "load_document sample_lib (doc_json n ''pending'' ''2024-01-01T00:00:00'') = Inr (sample_doc n PENDING 0)"
  "load_document sample_lib (doc_json n ''pending'' ''2024-01-01T00:01:00'') = Inr (sample_doc n PENDING 60000000)"
  by (simp_all add: load_document_def doc_json_def sample_doc_def sample_lib_def
      sample_fromisoformat_def)

lemma get_fs_a: "get_workflow_status sample_lib wm fs_a = [(''a.pdf'', sample_doc ''a.pdf'' PENDING 0)]"
  by (simp add: get_workflow_status_def fs_a_def wm_simps load_doc_json)

lemma get_fs_cba:
  "get_workflow_status sample_lib wm fs_cba =
     [(''c.pdf'', sample_doc ''c.pdf'' PENDING 60000000),
      (''b.pdf'', sample_doc ''b.pdf'' PENDING 0),
      (''a.pdf'', sample_doc ''a.pdf'' PENDING 0)]"
  by (simp add: get_workflow_status_def fs_cba_def wm_simps load_doc_json)


lemma transition_state_absent:
  "map_of (get_workflow_status (lib E) self fs) fname = None \<Longrightarrow>
   transition_state E self fs fname new_state message = (fs, False)"
  by (simp add: transition_state_def)

lemma transition_state_found:
  assumes "map_of (get_workflow_status (lib E) self fs) fname = Some doc_info"
  shows "transition_state E self fs fname new_state message =
           (save_workflow_status E self fs
              (AList.update fname
                 (doc_info\<lparr>current_state := new_state, updated_at := now E,
                            error_message := opt_str message\<rparr>)
                 (get_workflow_status (lib E) self fs)), True)"
  using assms by (simp add: transition_state_def)

lemma transition_state_ledger:
  assumes "write_outcome E = WriteOk" and "iso_roundtrip (lib E)"
    and "map_of (get_workflow_status (lib E) self fs) fname = Some doc_info"
  shows "get_workflow_status (lib E) self (fst (transition_state E self fs fname new_state message)) =
           AList.update fname
             (doc_info\<lparr>current_state := new_state, updated_at := now E,
                        error_message := opt_str message\<rparr>)
             (get_workflow_status (lib E) self fs)"
  using assms
  by (simp add: transition_state_found save_load distinct_update get_workflow_status_distinct)

text \<open>
  C6 (corrected). The claim has \<^verbatim>\<open>transition\<close> clear the error message whenever the
  new state is not \<^verbatim>\<open>ERROR\<close>, whatever message is supplied. The code stores the
  message it is given: a transition to \<^verbatim>\<open>PROCESSING\<close> with a message keeps it.
\<close>

theorem transition_keeps_message:
  "snd (transition_state env0 wm fs_a ''a.pdf'' PROCESSING (Some ''stale'')) = True \<and>
   get_workflow_status sample_lib wm
       (fst (transition_state env0 wm fs_a ''a.pdf'' PROCESSING (Some ''stale''))) =
     [(''a.pdf'', (sample_doc ''a.pdf'' PROCESSING 0)
         \<lparr>updated_at := Naive 120000000, error_message := PStr ''stale''\<rparr>)]"
proof -
  have m: "map_of (get_workflow_status (lib env0) wm fs_a) ''a.pdf'' = Some (sample_doc ''a.pdf'' PENDING 0)"
    by (simp add: env0_simps get_fs_a)
  have r: "iso_roundtrip (lib env0)" by (simp add: env0_simps sample_lib_roundtrip)
  have w: "write_outcome env0 = WriteOk" by (simp add: env0_simps)
  show ?thesis
    using transition_state_ledger [OF w r m, of PROCESSING "Some ''stale''"]
      transition_state_found [OF m, of PROCESSING "Some ''stale''"]
    by (simp add: env0_simps get_fs_a sample_doc_def)
qed

lemma transition_state_other:
  "p \<noteq> status_file self \<Longrightarrow>
   fst (transition_state E self fs fname new_state message) p = fs p"
  by (cases "map_of (get_workflow_status (lib E) self fs) fname")
     (simp_all add: transition_state_absent transition_state_found save_workflow_status_other)

text \<open>
  C6 as amended. \<^verbatim>\<open>transition_state\<close> returns failure and leaves every file as it was
  when the filename is not in the ledger. When it is there the call returns success,
  whether or not the ledger file can be written, and touches no file but the ledger
  file. When the ledger file is written and read back without fault, the record at that
  key has the new state, \<^verbatim>\<open>updated_at\<close> equal to the clock reading of the call, and
  \<^verbatim>\<open>error_message\<close> equal to the message supplied, null when none is, whatever the new
  state; the other records and the order of the ledger are unchanged. When the ledger
  file cannot be opened for writing, every file is left as it was; when the write fails
  midway, the ledger that is read back is empty.
\<close>

theorem transition_state_spec:
  "(map_of (get_workflow_status (lib E) self fs) fname = None \<longrightarrow>
      transition_state E self fs fname new_state message = (fs, False)) \<and>
   (\<forall>doc_info.
      map_of (get_workflow_status (lib E) self fs) fname = Some doc_info \<longrightarrow>
      snd (transition_state E self fs fname new_state message) = True \<and>
      (\<forall>p. p \<noteq> status_file self \<longrightarrow>
         fst (transition_state E self fs fname new_state message) p = fs p) \<and>
      (write_outcome E = WriteOk \<and> iso_roundtrip (lib E) \<longrightarrow>
         get_workflow_status (lib E) self
             (fst (transition_state E self fs fname new_state message)) =
           AList.update fname
             (doc_info\<lparr>current_state := new_state, updated_at := now E,
                        error_message := opt_str message\<rparr>)
             (get_workflow_status (lib E) self fs)) \<and>
      (write_outcome E = OpenFails \<longrightarrow>
         fst (transition_state E self fs fname new_state message) = fs) \<and>
      (write_outcome E = DumpFails \<longrightarrow>
         get_workflow_status (lib E) self
             (fst (transition_state E self fs fname new_state message)) = []))"
proof (intro conjI impI allI)
  assume "map_of (get_workflow_status (lib E) self fs) fname = None"
  then show "transition_state E self fs fname new_state message = (fs, False)"
    by (rule transition_state_absent)
next
  fix doc_info
  assume "map_of (get_workflow_status (lib E) self fs) fname = Some doc_info"
  then show "snd (transition_state E self fs fname new_state message) = True"
    by (simp add: transition_state_found)
next
  fix doc_info p
  assume "p \<noteq> status_file self"
  then show "fst (transition_state E self fs fname new_state message) p = fs p"
    by (rule transition_state_other)
next
  fix doc_info
  assume "map_of (get_workflow_status (lib E) self fs) fname = Some doc_info"
    and "write_outcome E = WriteOk \<and> iso_roundtrip (lib E)"
  then show "get_workflow_status (lib E) self
          (fst (transition_state E self fs fname new_state message)) =
        AList.update fname
          (doc_info\<lparr>current_state := new_state, updated_at := now E,
                     error_message := opt_str message\<rparr>)
          (get_workflow_status (lib E) self fs)"
    by (simp add: transition_state_ledger)
next
  fix doc_info
  assume "map_of (get_workflow_status (lib E) self fs) fname = Some doc_info"
    and "write_outcome E = OpenFails"
  then show "fst (transition_state E self fs fname new_state message) = fs"
    by (simp add: transition_state_found save_open_fails)
next
  fix doc_info
  assume "map_of (get_workflow_status (lib E) self fs) fname = Some doc_info"
    and "write_outcome E = DumpFails"
  then show "get_workflow_status (lib E) self
          (fst (transition_state E self fs fname new_state message)) = []"
    by (simp add: transition_state_found save_dump_fails)
qed

theorem transition_state_spec_witness:
  "map_of (get_workflow_status (lib env0) wm fs_a) ''b.pdf'' = None \<and>
   transition_state env0 wm fs_a ''b.pdf'' PROCESSING None = (fs_a, False) \<and>
   map_of (get_workflow_status (lib env0) wm fs_a) ''a.pdf'' = Some (sample_doc ''a.pdf'' PENDING 0) \<and>
   write_outcome env0 = WriteOk \<and> iso_roundtrip (lib env0) \<and>
   snd (transition_state env0 wm fs_a ''a.pdf'' PROCESSING None) = True \<and>
   get_workflow_status (lib env0) wm (fst (transition_state env0 wm fs_a ''a.pdf'' PROCESSING None)) =
     [(''a.pdf'', (sample_doc ''a.pdf'' PROCESSING 0)\<lparr>updated_at := Naive 120000000\<rparr>)] \<and>
   write_outcome env_unwritable = OpenFails \<and>
   transition_state env_unwritable wm fs_a ''a.pdf'' PROCESSING None = (fs_a, True)"
proof -
  have m: "map_of (get_workflow_status (lib env0) wm fs_a) ''a.pdf'' = Some (sample_doc ''a.pdf'' PENDING 0)"
    by (simp add: env0_simps get_fs_a)
  have n: "map_of (get_workflow_status (lib env0) wm fs_a) ''b.pdf'' = None"
    by (simp add: env0_simps get_fs_a)
  have r: "iso_roundtrip (lib env0)" by (simp add: env0_simps sample_lib_roundtrip)
  have w: "write_outcome env0 = WriteOk" by (simp add: env0_simps)
  have u: "lib env_unwritable = sample_lib" "write_outcome env_unwritable = OpenFails"
    by (simp_all add: env_unwritable_def env0_def)
  have mu: "map_of (get_workflow_status (lib env_unwritable) wm fs_a) ''a.pdf'' =
      Some (sample_doc ''a.pdf'' PENDING 0)"
    by (simp add: u get_fs_a)
  have a: "transition_state env0 wm fs_a ''b.pdf'' PROCESSING None = (fs_a, False)"
    by (rule transition_state_spec [THEN conjunct1, rule_format]) (rule n)
  note t = transition_state_spec [THEN conjunct2, rule_format, OF m, of PROCESSING None]
  from t have b1: "snd (transition_state env0 wm fs_a ''a.pdf'' PROCESSING None) = True"
    by (rule conjunct1)
  from t [THEN conjunct2, THEN conjunct2, THEN conjunct1] w r
  have b2: "get_workflow_status (lib env0) wm (fst (transition_state env0 wm fs_a ''a.pdf'' PROCESSING None)) =
        AList.update ''a.pdf''
          ((sample_doc ''a.pdf'' PENDING 0)\<lparr>current_state := PROCESSING, updated_at := now env0,
                     error_message := opt_str None\<rparr>)
          (get_workflow_status (lib env0) wm fs_a)"
    by simp
  have c: "AList.update ''a.pdf''
          ((sample_doc ''a.pdf'' PENDING 0)\<lparr>current_state := PROCESSING, updated_at := now env0,
                     error_message := opt_str None\<rparr>)
          (get_workflow_status (lib env0) wm fs_a) =
        [(''a.pdf'', (sample_doc ''a.pdf'' PROCESSING 0)\<lparr>updated_at := Naive 120000000\<rparr>)]"
    by (simp add: env0_simps get_fs_a sample_doc_def)
  note tu = transition_state_spec [THEN conjunct2, rule_format, OF mu, of PROCESSING None]
  from tu have d1: "snd (transition_state env_unwritable wm fs_a ''a.pdf'' PROCESSING None) = True"
    by (rule conjunct1)
  from tu [THEN conjunct2, THEN conjunct2, THEN conjunct2, THEN conjunct1] u
  have d2: "fst (transition_state env_unwritable wm fs_a ''a.pdf'' PROCESSING None) = fs_a"
    by simp
  from d1 d2 have d: "transition_state env_unwritable wm fs_a ''a.pdf'' PROCESSING None = (fs_a, True)"
    by (simp add: prod_eq_iff)
  from a b1 b2 c d m n r w u show ?thesis by simp
qed

subsection \<open>Loading\<close>

text \<open>
  C8 (corrected). The claim has \<^verbatim>\<open>load\<close> fail with a distinct error on a ledger file
  that cannot be parsed. \<^verbatim>\<open>get_workflow_status\<close> catches every exception of the
  parse and returns the empty ledger, the value it returns when there is no file: a file
  that is not JSON, and one with an unknown state, both load as empty.
\<close>

theorem corrupt_ledger_loads_empty:
  "get_workflow_status sample_lib wm Map.empty = [] \<and>
   load_status sample_lib NotJson = Inl ValueError \<and>
   get_workflow_status sample_lib wm fs_corrupt = [] \<and>
   load_status sample_lib
     (Json (PDict [(''a.pdf'', doc_json ''a.pdf'' ''archived'' ''2024-01-01T00:00:00'')])) =
     Inl ValueError \<and>
   get_workflow_status sample_lib wm fs_bad_state = []"
  by (simp add: get_workflow_status_def fs_corrupt_def fs_bad_state_def wm_simps
      load_document_def doc_json_def)

text \<open>
  C8 as amended. \<^verbatim>\<open>get_workflow_status\<close> returns the empty ledger when there is no
  ledger file, and also, never failing, whenever the file cannot be parsed as a ledger;
  otherwise it returns the parsed ledger.
\<close>

theorem get_workflow_status_never_fails:
  "(fs (status_file self) = None \<longrightarrow> get_workflow_status L self fs = []) \<and>
   (\<forall>c e. fs (status_file self) = Some c \<and> load_status L c = Inl e \<longrightarrow>
      get_workflow_status L self fs = []) \<and>
   (\<forall>c workflow_status. fs (status_file self) = Some c \<and> load_status L c = Inr workflow_status \<longrightarrow>
      get_workflow_status L self fs = workflow_status)"
  by (simp add: get_workflow_status_def)

theorem get_workflow_status_never_fails_witness:
  "fs_corrupt (status_file wm) = Some NotJson \<and>
   load_status sample_lib NotJson = Inl ValueError \<and>
   get_workflow_status sample_lib wm fs_corrupt = []"
proof -
  have a: "fs_corrupt (status_file wm) = Some NotJson" by (simp add: fs_corrupt_def)
  have b: "load_status sample_lib NotJson = Inl ValueError" by simp
  from get_workflow_status_never_fails [of fs_corrupt wm sample_lib] a b
  show ?thesis by blast
qed


subsection \<open>Saving\<close>

text \<open>
  C9 (corrected). The claim has \<^verbatim>\<open>save\<close> write a temporary file and rename it into
  place, so that no interruption leaves a truncated ledger. \<^verbatim>\<open>save_workflow_status\<close>
  opens the ledger file itself for writing: cut short after that step, the file is empty
  and the ledger that was there loads as empty.
\<close>

theorem interrupted_save_truncates:
  "get_workflow_status sample_lib wm fs_a = [(''a.pdf'', sample_doc ''a.pdf'' PENDING 0)] \<and>
   interrupted_save sample_lib wm fs_a [(''a.pdf'', sample_doc ''a.pdf'' PROCESSING 0)] 1
     (status_file wm) = Some NotJson \<and>
   get_workflow_status sample_lib wm
     (interrupted_save sample_lib wm fs_a [(''a.pdf'', sample_doc ''a.pdf'' PROCESSING 0)] 1) = []"
proof -
  have "get_workflow_status sample_lib wm
     (interrupted_save sample_lib wm fs_a [(''a.pdf'', sample_doc ''a.pdf'' PROCESSING 0)] 1) = []"
    by (simp add: interrupted_save_steps get_workflow_status_def)
  then show ?thesis
    by (simp add: get_fs_a interrupted_save_steps)
qed

text \<open>
  C9 as amended. \<^verbatim>\<open>save_workflow_status\<close> writes into the ledger file in place: its
  first step truncates the file, its second writes the whole serialized ledger, and no
  other path (no temporary file) is touched. Cut short after the first step it leaves a
  truncated file, which loads as the empty ledger; run to its end without a fault it
  persists the full mapping, which a following load returns.
\<close>

theorem save_in_place:
  "interrupted_save L self fs ws 0 = fs \<and>
   interrupted_save L self fs ws 1 = fs(status_file self \<mapsto> NotJson) \<and>
   (\<forall>k. 2 \<le> k \<longrightarrow>
      interrupted_save L self fs ws k =
        fs(status_file self \<mapsto> Json (PDict (dump_items L ws [])))) \<and>
   (\<forall>k p. p \<noteq> status_file self \<longrightarrow> interrupted_save L self fs ws k p = fs p) \<and>
   (get_workflow_status L self (interrupted_save L self fs ws 1) = []) \<and>
   (\<forall>E :: env. lib E = L \<and> write_outcome E = WriteOk \<and> iso_roundtrip L \<and> distinct (map fst ws) \<longrightarrow>
      save_workflow_status E self fs ws = interrupted_save L self fs ws 2 \<and>
      get_workflow_status L self (save_workflow_status E self fs ws) = ws)"
proof (intro conjI allI impI)
  show "interrupted_save L self fs ws 0 = fs"
    by (simp add: interrupted_save_steps)
  show "interrupted_save L self fs ws 1 = fs(status_file self \<mapsto> NotJson)"
    by (simp add: interrupted_save_steps)
  show "get_workflow_status L self (interrupted_save L self fs ws 1) = []"
    by (simp add: interrupted_save_steps get_workflow_status_def)
next
  fix k :: nat assume "2 \<le> k"
  then obtain j where "k = Suc (Suc j)"
    by (metis Suc_le_D numeral_2_eq_2 Suc_le_mono)
  then show "interrupted_save L self fs ws k =
        fs(status_file self \<mapsto> Json (PDict (dump_items L ws [])))"
    by (simp add: interrupted_save_steps)
next
  fix k p assume "p \<noteq> status_file self"
  then show "interrupted_save L self fs ws k p = fs p"
    by (rule interrupted_save_other)
next
  fix E :: env assume a: "lib E = L \<and> write_outcome E = WriteOk \<and> iso_roundtrip L \<and> distinct (map fst ws)"
  then show "save_workflow_status E self fs ws = interrupted_save L self fs ws 2"
    by (simp add: save_workflow_status_def interrupted_save_def save_ops_def)
  from a show "get_workflow_status L self (save_workflow_status E self fs ws) = ws"
    using save_load [of E ws self fs] by auto
qed

theorem save_in_place_witness:
  "interrupted_save sample_lib wm fs_a [(''a.pdf'', sample_doc ''a.pdf'' PROCESSING 0)] 2 =
     fs_a(status_file wm \<mapsto>
       Json (PDict (dump_items sample_lib [(''a.pdf'', sample_doc ''a.pdf'' PROCESSING 0)] []))) \<and>
   interrupted_save sample_lib wm fs_a [(''a.pdf'', sample_doc ''a.pdf'' PROCESSING 0)] 1
     [''intake'', ''pending'', ''a.pdf''] = Some NotJson \<and>
   get_workflow_status sample_lib wm
     (save_workflow_status env0 wm fs_a [(''a.pdf'', sample_doc ''a.pdf'' PROCESSING 0)]) =
     [(''a.pdf'', sample_doc ''a.pdf'' PROCESSING 0)]"
proof -
  let ?ws = "[(''a.pdf'', sample_doc ''a.pdf'' PROCESSING 0)]"
  note t = save_in_place [of sample_lib wm fs_a ?ws]
  have p: "[''intake'', ''pending'', ''a.pdf''] \<noteq> status_file wm"
    by (simp add: wm_simps)
  have e: "lib env0 = sample_lib \<and> write_outcome env0 = WriteOk \<and> iso_roundtrip sample_lib \<and>
      distinct (map fst ?ws)"
    by (simp add: env0_simps sample_lib_roundtrip)
  have f: "fs_a [''intake'', ''pending'', ''a.pdf''] = Some NotJson"
    by (simp add: fs_a_def wm_simps)
  from t have "interrupted_save sample_lib wm fs_a ?ws 2 =
     fs_a(status_file wm \<mapsto> Json (PDict (dump_items sample_lib ?ws [])))"
    by simp
  moreover from t p f have "interrupted_save sample_lib wm fs_a ?ws 1
     [''intake'', ''pending'', ''a.pdf''] = Some NotJson"
    by simp
  moreover from t e have "get_workflow_status sample_lib wm
     (save_workflow_status env0 wm fs_a ?ws) = ?ws"
    by blast
  ultimately show ?thesis by blast
qed


subsection \<open>Registration\<close>

lemma register_document_eq:
  "register_document E self fs filepath metadata0 =
     (save_workflow_status E self fs
        (AList.update (path_name filepath) (new_document E filepath metadata0)
           (get_workflow_status (lib E) self fs)),
      path_name filepath)"
  by (simp add: register_document_def new_document_def Let_def)

lemma register_document_ledger:
  assumes "write_outcome E = WriteOk" and "iso_roundtrip (lib E)"
  shows "get_workflow_status (lib E) self (fst (register_document E self fs filepath metadata0)) =
           AList.update (path_name filepath) (new_document E filepath metadata0)
             (get_workflow_status (lib E) self fs)"
  using assms
  by (simp add: register_document_eq save_load distinct_update get_workflow_status_distinct)

lemma distinct_one_record:
  "distinct (map fst al) \<Longrightarrow> map_of al k = Some v \<Longrightarrow>
   length (filter (\<lambda>kd. fst kd = k) al) = 1"
proof (induction al)
  case Nil
  then show ?case by simp
next
  case (Cons a al)
  show ?case
  proof (cases "fst a = k")
    case True
    with Cons.prems(1) have "k \<notin> fst ` set al" by auto
    then have "filter (\<lambda>kd. fst kd = k) al = []"
      by (auto simp: filter_empty_conv)
    with True show ?thesis by simp
  next
    case False
    with Cons show ?thesis by (cases a) auto
  qed
qed

lemma path_name_samples:
  "path_name ''uploads/x/b.pdf'' = ''b.pdf''" "path_name ''other/b.pdf'' = ''b.pdf''"
  by (simp_all add: path_name_def)

lemma register_document_other:
  "p \<noteq> status_file self \<Longrightarrow>
   fst (register_document E self fs filepath metadata0) p = fs p"
  by (simp add: register_document_eq save_workflow_status_other)

text \<open>
  C10 (corrected). The claim has \<^verbatim>\<open>register\<close> insert the record, with no condition.
  \<^verbatim>\<open>save_workflow_status\<close> prints and swallows the exception of a failing write: with
  no \<^verbatim>\<open>workflows\<close> directory to write into, \<^verbatim>\<open>register_document\<close> returns the
  filename and no record exists afterwards.
\<close>

theorem register_unwritable_records_nothing:
  "register_document env_unwritable wm Map.empty ''uploads/x/b.pdf'' PNone =
     (Map.empty, ''b.pdf'') \<and>
   get_workflow_status sample_lib wm Map.empty = []"
  by (simp add: register_document_eq save_open_fails env_unwritable_def env0_def
      path_name_samples get_workflow_status_def)

text \<open>
  C10 as amended. The ledger that is read back has at most one record for a filename,
  whatever the files hold. \<^verbatim>\<open>register_document\<close> always returns the basename of the
  path it is given and touches no file but the ledger file. When the ledger file is
  written and read back without fault, it puts at that key, replacing whatever record was
  there, a record with state \<^verbatim>\<open>PENDING\<close> and \<^verbatim>\<open>created_at = updated_at =\<close> the
  clock reading of the call, and exactly one record of the ledger then has that key. When
  the ledger file cannot be opened for writing, every file is left as it was and nothing
  is recorded; when the write fails midway, the ledger that is read back is empty.
\<close>

theorem register_document_spec:
  "snd (register_document E self fs filepath metadata0) = path_name filepath \<and>
   distinct (map fst (get_workflow_status L self fs)) \<and>
   (\<forall>p. p \<noteq> status_file self \<longrightarrow>
      fst (register_document E self fs filepath metadata0) p = fs p) \<and>
   (write_outcome E = WriteOk \<and> iso_roundtrip (lib E) \<longrightarrow>
      get_workflow_status (lib E) self (fst (register_document E self fs filepath metadata0)) =
        AList.update (path_name filepath) (new_document E filepath metadata0)
          (get_workflow_status (lib E) self fs) \<and>
      map_of (get_workflow_status (lib E) self
                (fst (register_document E self fs filepath metadata0))) (path_name filepath) =
        Some (new_document E filepath metadata0) \<and>
      length (filter (\<lambda>kd. fst kd = path_name filepath)
                (get_workflow_status (lib E) self
                   (fst (register_document E self fs filepath metadata0)))) = 1) \<and>
   (write_outcome E = OpenFails \<longrightarrow>
      fst (register_document E self fs filepath metadata0) = fs) \<and>
   (write_outcome E = DumpFails \<longrightarrow>
      get_workflow_status (lib E) self
        (fst (register_document E self fs filepath metadata0)) = [])"
proof (intro conjI allI impI)
  show "snd (register_document E self fs filepath metadata0) = path_name filepath"
    by (simp add: register_document_eq)
  show "distinct (map fst (get_workflow_status L self fs))"
    by (rule get_workflow_status_distinct)
next
  fix p assume "p \<noteq> status_file self"
  then show "fst (register_document E self fs filepath metadata0) p = fs p"
    by (rule register_document_other)
next
  let ?fs = "fst (register_document E self fs filepath metadata0)"
  assume a: "write_outcome E = WriteOk \<and> iso_roundtrip (lib E)"
  then show l: "get_workflow_status (lib E) self ?fs =
        AList.update (path_name filepath) (new_document E filepath metadata0)
          (get_workflow_status (lib E) self fs)"
    by (simp add: register_document_ledger)
  then show m: "map_of (get_workflow_status (lib E) self ?fs) (path_name filepath) =
        Some (new_document E filepath metadata0)"
    by (simp add: update_conv')
  have "distinct (map fst (get_workflow_status (lib E) self ?fs))"
    by (rule get_workflow_status_distinct)
  then show "length (filter (\<lambda>kd. fst kd = path_name filepath)
                (get_workflow_status (lib E) self ?fs)) = 1"
    using m by (rule distinct_one_record)
next
  assume "write_outcome E = OpenFails"
  then show "fst (register_document E self fs filepath metadata0) = fs"
    by (simp add: register_document_eq save_open_fails)
next
  assume "write_outcome E = DumpFails"
  then show "get_workflow_status (lib E) self
        (fst (register_document E self fs filepath metadata0)) = []"
    by (simp add: register_document_eq save_dump_fails)
qed

theorem register_document_spec_witness:
  "write_outcome env0 = WriteOk \<and> iso_roundtrip (lib env0) \<and>
   get_workflow_status sample_lib wm fs_b1 =
     [(''a.pdf'', sample_doc ''a.pdf'' PENDING 0),
      (''b.pdf'', new_document env0 ''uploads/x/b.pdf'' PNone)] \<and>
   get_workflow_status sample_lib wm fs_b2 =
     [(''a.pdf'', sample_doc ''a.pdf'' PENDING 0),
      (''b.pdf'', \<lparr>filename = PStr ''b.pdf'', original_path = PStr ''other/b.pdf'',
          current_state = PENDING, created_at = Naive 60000000, updated_at = Naive 60000000,
          metadata = PDict [(''source'', PStr ''cli'')], error_message = PNone\<rparr>)] \<and>
   length (filter (\<lambda>kd. fst kd = ''b.pdf'') (get_workflow_status sample_lib wm fs_b2)) = 1 \<and>
   write_outcome env_unwritable = OpenFails \<and>
   fst (register_document env_unwritable wm fs_a ''uploads/x/b.pdf'' PNone) = fs_a"
proof -
  let ?E = "env0\<lparr>now := Naive 60000000\<rparr>"
  have w: "write_outcome env0 = WriteOk \<and> iso_roundtrip (lib env0)"
    "write_outcome ?E = WriteOk \<and> iso_roundtrip (lib ?E)"
    by (simp_all add: env0_def sample_lib_roundtrip)
  have l: "lib env0 = sample_lib" "lib ?E = sample_lib" by (simp_all add: env0_def)
  have u: "write_outcome env_unwritable = OpenFails"
    by (simp add: env_unwritable_def env0_def)
  note t1 = register_document_spec [THEN conjunct2, THEN conjunct2, THEN conjunct2,
      THEN conjunct1, rule_format, OF w(1), of wm fs_a "''uploads/x/b.pdf''" PNone,
      folded fs_b1_def, unfolded l path_name_samples]
  from t1 have 1: "get_workflow_status sample_lib wm fs_b1 =
     [(''a.pdf'', sample_doc ''a.pdf'' PENDING 0),
      (''b.pdf'', new_document env0 ''uploads/x/b.pdf'' PNone)]"
    by (simp add: get_fs_a)
  note t2 = register_document_spec [THEN conjunct2, THEN conjunct2, THEN conjunct2,
      THEN conjunct1, rule_format, OF w(2), of wm fs_b1 "''other/b.pdf''"
      "PDict [(''source'', PStr ''cli'')]", folded fs_b2_def, unfolded l path_name_samples]
  from t2 have 2: "get_workflow_status sample_lib wm fs_b2 =
      AList.update ''b.pdf'' (new_document ?E ''other/b.pdf'' (PDict [(''source'', PStr ''cli'')]))
        (get_workflow_status sample_lib wm fs_b1)"
    by (rule conjunct1)
  from t2 have 3: "length (filter (\<lambda>kd. fst kd = ''b.pdf'') (get_workflow_status sample_lib wm fs_b2)) = 1"
    by (rule conjunct2 [THEN conjunct2])
  have 4: "fst (register_document env_unwritable wm fs_a ''uploads/x/b.pdf'' PNone) = fs_a"
    by (rule register_document_spec [THEN conjunct2, THEN conjunct2, THEN conjunct2,
          THEN conjunct2, THEN conjunct1, rule_format]) (rule u)
  from 1 2 3 4 w(1) u show ?thesis
    by (simp add: new_document_def path_name_samples env0_def)
qed

subsection \<open>Moving a document\<close>












subsection \<open>Listing by state\<close>

lemma py_sort_created_uniform:
  "filter (\<lambda>d. is_aware (created_at d)) documents = [] \<or>
   filter (\<lambda>d. is_naive (created_at d)) documents = [] \<Longrightarrow>
   py_sort_created documents = Inr (sort_key (\<lambda>d. time_key (created_at d)) documents)"
  by (auto simp: py_sort_created_def)

lemma py_sort_created_mixed:
  "filter (\<lambda>d. is_aware (created_at d)) documents \<noteq> [] \<Longrightarrow>
   filter (\<lambda>d. is_naive (created_at d)) documents \<noteq> [] \<Longrightarrow>
   py_sort_created documents = Inl TypeError"
  by (simp add: py_sort_created_def)

lemma list_documents_by_state_order:
  "list_documents_by_state L self fs state =
     map snd (filter (\<lambda>kd. current_state (snd kd) = state) (get_workflow_status L self fs))"
  by (simp add: list_documents_by_state_def filter_map comp_def)

lemma list_fs_cba:
  "list_documents_by_state sample_lib wm fs_cba PENDING =
     [sample_doc ''c.pdf'' PENDING 60000000, sample_doc ''b.pdf'' PENDING 0,
      sample_doc ''a.pdf'' PENDING 0]"
  by (simp add: list_documents_by_state_def get_fs_cba sample_doc_def)

lemma sort_fs_cba:
  "sort_key (\<lambda>d. time_key (created_at d))
     [sample_doc ''c.pdf'' PENDING 60000000, sample_doc ''b.pdf'' PENDING 0,
      sample_doc ''a.pdf'' PENDING 0] =
     [sample_doc ''b.pdf'' PENDING 0, sample_doc ''a.pdf'' PENDING 0,
      sample_doc ''c.pdf'' PENDING 60000000]"
  by (simp add: sample_doc_def)

text \<open>
  C7 (corrected). The claim has \<^verbatim>\<open>query_by_state\<close> return the records oldest first,
  with equal creation times ordered by filename. \<^verbatim>\<open>list_documents_by_state\<close> does not
  sort at all, and \<^verbatim>\<open>get_next_documents_for_processing\<close> sorts by creation time only:
  \<^verbatim>\<open>b.pdf\<close> and \<^verbatim>\<open>a.pdf\<close>, created at the same time, come out in ledger order.
\<close>

theorem ties_keep_ledger_order:
  "map filename (list_documents_by_state sample_lib wm fs_cba PENDING) =
     [PStr ''c.pdf'', PStr ''b.pdf'', PStr ''a.pdf''] \<and>
   map created_at (list_documents_by_state sample_lib wm fs_cba PENDING) =
     [Naive 60000000, Naive 0, Naive 0] \<and>
   get_next_documents_for_processing sample_lib wm fs_cba PENDING 10 =
     Inr [PStr ''b.pdf'', PStr ''a.pdf'', PStr ''c.pdf'']"
proof -
  have "get_next_documents_for_processing sample_lib wm fs_cba PENDING 10 =
     Inr [PStr ''b.pdf'', PStr ''a.pdf'', PStr ''c.pdf'']"
    by (simp add: get_next_documents_for_processing_def list_fs_cba py_sort_created_def
        sort_fs_cba slice_to_def)
       (simp add: sample_doc_def)
  then show ?thesis
    by (simp add: list_fs_cba sample_doc_def)
qed

text \<open>
  C7 as amended. \<^verbatim>\<open>list_documents_by_state\<close> returns exactly the records of the
  ledger whose state is the given one, in ledger order, unsorted.
  \<^verbatim>\<open>get_next_documents_for_processing\<close> sorts those records by creation time, oldest
  first, with a stable sort: the sorted list is non-decreasing in creation time, holds
  the same records, and keeps records created at the same time in their ledger order,
  with no regard to the filename. It returns the filenames of \<^verbatim>\<open>documents[:limit]\<close> of
  the sorted list: the first \<^verbatim>\<open>limit\<close> of them for a limit that is not negative, all
  but the last \<^verbatim>\<open>-limit\<close> for a negative one. This is so when the creation times are
  all naive or all aware; when both kinds occur the call raises a TypeError.
\<close>

theorem get_next_documents_spec:
  "list_documents_by_state L self fs state =
     map snd (filter (\<lambda>kd. current_state (snd kd) = state) (get_workflow_status L self fs)) \<and>
   (filter (\<lambda>d. is_aware (created_at d)) (list_documents_by_state L self fs state) = [] \<or>
    filter (\<lambda>d. is_naive (created_at d)) (list_documents_by_state L self fs state) = [] \<longrightarrow>
      get_next_documents_for_processing L self fs state limit =
        Inr (map filename (slice_to limit
          (sort_key (\<lambda>d. time_key (created_at d))
             (list_documents_by_state L self fs state))))) \<and>
   (filter (\<lambda>d. is_aware (created_at d)) (list_documents_by_state L self fs state) \<noteq> [] \<and>
    filter (\<lambda>d. is_naive (created_at d)) (list_documents_by_state L self fs state) \<noteq> [] \<longrightarrow>
      get_next_documents_for_processing L self fs state limit = Inl TypeError) \<and>
   sorted (map (\<lambda>d. time_key (created_at d))
      (sort_key (\<lambda>d. time_key (created_at d)) (list_documents_by_state L self fs state))) \<and>
   mset (sort_key (\<lambda>d. time_key (created_at d)) (list_documents_by_state L self fs state)) =
     mset (list_documents_by_state L self fs state) \<and>
   (\<forall>t. filter (\<lambda>d. time_key (created_at d) = t)
          (sort_key (\<lambda>d. time_key (created_at d)) (list_documents_by_state L self fs state)) =
        filter (\<lambda>d. time_key (created_at d) = t) (list_documents_by_state L self fs state)) \<and>
   (\<forall>xs :: DocumentInfo list. 0 \<le> limit \<longrightarrow> slice_to limit xs = take (nat limit) xs) \<and>
   (\<forall>xs :: DocumentInfo list. limit < 0 \<longrightarrow>
      slice_to limit xs = take (length xs - nat (- limit)) xs)"
proof (intro conjI allI impI)
  show "list_documents_by_state L self fs state =
     map snd (filter (\<lambda>kd. current_state (snd kd) = state) (get_workflow_status L self fs))"
    by (rule list_documents_by_state_order)
next
  assume "filter (\<lambda>d. is_aware (created_at d)) (list_documents_by_state L self fs state) = [] \<or>
    filter (\<lambda>d. is_naive (created_at d)) (list_documents_by_state L self fs state) = []"
  then show "get_next_documents_for_processing L self fs state limit =
        Inr (map filename (slice_to limit
          (sort_key (\<lambda>d. time_key (created_at d))
             (list_documents_by_state L self fs state))))"
    by (simp add: get_next_documents_for_processing_def py_sort_created_uniform)
next
  assume "filter (\<lambda>d. is_aware (created_at d)) (list_documents_by_state L self fs state) \<noteq> [] \<and>
    filter (\<lambda>d. is_naive (created_at d)) (list_documents_by_state L self fs state) \<noteq> []"
  then show "get_next_documents_for_processing L self fs state limit = Inl TypeError"
    by (simp add: get_next_documents_for_processing_def py_sort_created_mixed)
next
  show "sorted (map (\<lambda>d. time_key (created_at d))
      (sort_key (\<lambda>d. time_key (created_at d)) (list_documents_by_state L self fs state)))"
    by (rule sorted_sort_key)
next
  show "mset (sort_key (\<lambda>d. time_key (created_at d)) (list_documents_by_state L self fs state)) =
     mset (list_documents_by_state L self fs state)"
    by (rule mset_sort)
next
  fix t
  show "filter (\<lambda>d. time_key (created_at d) = t)
          (sort_key (\<lambda>d. time_key (created_at d)) (list_documents_by_state L self fs state)) =
        filter (\<lambda>d. time_key (created_at d) = t) (list_documents_by_state L self fs state)"
    by (rule sort_key_stable)
next
  fix xs :: "DocumentInfo list" assume "0 \<le> limit"
  then show "slice_to limit xs = take (nat limit) xs"
    by (simp add: slice_to_def)
next
  fix xs :: "DocumentInfo list" assume "limit < 0"
  then have "nat (int (length xs) + limit) = length xs - nat (- limit)"
    by arith
  with \<open>limit < 0\<close> show "slice_to limit xs = take (length xs - nat (- limit)) xs"
    by (simp add: slice_to_def)
qed

theorem get_next_documents_spec_witness:
  "filter (\<lambda>d. is_aware (created_at d)) (list_documents_by_state sample_lib wm fs_cba PENDING) = [] \<and>
   get_next_documents_for_processing sample_lib wm fs_cba PENDING 2 =
     Inr [PStr ''b.pdf'', PStr ''a.pdf''] \<and>
   slice_to (- 1) (sort_key (\<lambda>d. time_key (created_at d))
       (list_documents_by_state sample_lib wm fs_cba PENDING)) =
     [sample_doc ''b.pdf'' PENDING 0, sample_doc ''a.pdf'' PENDING 0]"
proof -
  have a: "filter (\<lambda>d. is_aware (created_at d))
      (list_documents_by_state sample_lib wm fs_cba PENDING) = []"
    by (simp add: list_fs_cba sample_doc_def)
  have "get_next_documents_for_processing sample_lib wm fs_cba PENDING 2 =
        Inr (map filename (slice_to 2
          (sort_key (\<lambda>d. time_key (created_at d))
             (list_documents_by_state sample_lib wm fs_cba PENDING))))"
    by (rule get_next_documents_spec [THEN conjunct2, THEN conjunct1, rule_format])
       (simp add: a)
  moreover have "slice_to 2 (sort_key (\<lambda>d. time_key (created_at d))
             (list_documents_by_state sample_lib wm fs_cba PENDING)) =
      take (nat 2) (sort_key (\<lambda>d. time_key (created_at d))
             (list_documents_by_state sample_lib wm fs_cba PENDING))"
    by (rule get_next_documents_spec [THEN conjunct2, THEN conjunct2, THEN conjunct2,
          THEN conjunct2, THEN conjunct2, THEN conjunct2, THEN conjunct1, rule_format]) simp
  ultimately have b: "get_next_documents_for_processing sample_lib wm fs_cba PENDING 2 =
     Inr [PStr ''b.pdf'', PStr ''a.pdf'']"
    by (simp add: list_fs_cba sort_fs_cba) (simp add: sample_doc_def)
  have "slice_to (- 1) (sort_key (\<lambda>d. time_key (created_at d))
             (list_documents_by_state sample_lib wm fs_cba PENDING)) =
      take (length (sort_key (\<lambda>d. time_key (created_at d))
             (list_documents_by_state sample_lib wm fs_cba PENDING)) - nat (- (- 1)))
        (sort_key (\<lambda>d. time_key (created_at d))
             (list_documents_by_state sample_lib wm fs_cba PENDING))"
    by (rule get_next_documents_spec [THEN conjunct2, THEN conjunct2, THEN conjunct2,
          THEN conjunct2, THEN conjunct2, THEN conjunct2, THEN conjunct2, rule_format]) simp
  then have c: "slice_to (- 1) (sort_key (\<lambda>d. time_key (created_at d))
       (list_documents_by_state sample_lib wm fs_cba PENDING)) =
     [sample_doc ''b.pdf'' PENDING 0, sample_doc ''a.pdf'' PENDING 0]"
    unfolding list_fs_cba sort_fs_cba by simp
  from a b c show ?thesis by simp
qed

end
